theory Spec2Isabelle
  imports Main
begin

section \<open>Preference models of dynamic\_preferences/models.py\<close>

text \<open>
  The module persists preferences as rows \<open>(id, section, name, raw_value [, instance])\<close>
  and maps each row to a preference object of a registry, whose serializer converts
  between the stored text and the Python value. The registries, the preference
  objects and their serializers live in other modules; here they are parameters:
  records of functions that may raise.
\<close>

subsection \<open>Python values and exceptions\<close>

text \<open>
  Values handed to and returned by serializers. \<open>PNone\<close> is Python's \<open>None\<close>,
  which the constructor compares against.
\<close>

datatype pyval = PNone | PBool bool | PInt int | PStr string

text \<open>
  Exceptions are values. \<open>KeyError\<close> is kept apart from the other kinds because
  \<open>to_dict\<close> has an \<open>except KeyError\<close> clause; in Python it is a subclass of
  \<open>LookupError\<close>.
\<close>

datatype error =
    KeyError
  | LookupError
  | SerializationError
  | DeserializationError
  | OtherError string

fun is_KeyError :: "error \<Rightarrow> bool" where
  "is_KeyError KeyError = True"
| "is_KeyError _ = False"

subsection \<open>The collaborators: serializer, preference, registry\<close>

text \<open>
  \<open>preference.serializer.serialize(value)\<close> returns text or raises;
  \<open>preference.serializer.deserialize(raw_value)\<close> receives the nullable column
  and returns a value or raises.
\<close>

record serializer =
  serialize :: "pyval \<Rightarrow> error + string"
  deserialize :: "string option \<Rightarrow> error + pyval"

text \<open>The preference object: the source reads \<open>.default\<close> and \<open>.serializer\<close>.\<close>

record preference =
  default_value :: pyval
  serializer :: serializer

text \<open>A stored row: the columns of one preference table (id is the primary key).\<close>

record db_row =
  row_id :: int
  row_section :: "string option"
  row_name :: string
  row_raw_value :: "string option"
  row_instance :: "nat option"

text \<open>
  A registry: \<open>registry.get(section=..., name=...)\<close> returns the preference or
  raises; \<open>registry.create_default_preferences(instance)\<close> writes rows for one
  owner (or raises). Both bodies are outside this module.
\<close>

record registry =
  get :: "string option \<Rightarrow> string \<Rightarrow> error + preference"
  create_default_preferences :: "nat \<Rightarrow> db_row list \<Rightarrow> error + db_row list"

subsection \<open>BasePreferenceModel\<close>

text \<open>
  An instance in memory: the model fields, the primary key, and the slot in which
  \<open>cached_property\<close> stores the result of \<open>preference\<close> after its first
  successful evaluation.
\<close>

record pref_model =
  pk :: "int option"
  "section" :: "string option"
  name :: string
  raw_value :: "string option"
  "instance" :: "nat option"
  preference_cache :: "preference option"

text \<open>
  The keyword arguments of the constructor: the field values handed on to
  \<open>models.Model.__init__\<close>, and the optional \<open>value\<close> keyword
  (\<open>None\<close> here: the keyword is absent; \<open>Some PNone\<close>: it was passed as
  Python's \<open>None\<close>).
\<close>

record init_kwargs =
  kw_pk :: "int option"
  kw_section :: "string option"
  kw_name :: string
  kw_raw_value :: "string option"
  kw_instance :: "nat option"
  kw_value :: "pyval option"

text \<open>\<open>super(BasePreferenceModel, self).__init__(*args, **kwargs)\<close>: the fields are set,
  nothing is cached yet.\<close>

definition Model_init :: "init_kwargs \<Rightarrow> pref_model" where
  "Model_init kwargs =
     \<lparr>pk = kw_pk kwargs, section = kw_section kwargs, name = kw_name kwargs,
      raw_value = kw_raw_value kwargs, instance = kw_instance kwargs,
      preference_cache = None\<rparr>"

text \<open>
  \<open>@cached_property def preference(self): return self.registry.get(section=self.section, name=self.name)\<close>.
  A raised lookup caches nothing.
\<close>

definition preference :: "registry \<Rightarrow> pref_model \<Rightarrow> (error + preference) \<times> pref_model" where
  "preference reg self =
     (case preference_cache self of
        Some p \<Rightarrow> (Inr p, self)
      | None \<Rightarrow>
          (case get reg (section self) (name self) of
             Inl e \<Rightarrow> (Inl e, self)
           | Inr p \<Rightarrow> (Inr p, self\<lparr>preference_cache := Some p\<rparr>)))"

text \<open>\<open>self.raw_value = self.preference.serializer.serialize(value)\<close>\<close>

definition set_value :: "registry \<Rightarrow> pref_model \<Rightarrow> pyval \<Rightarrow> (error + unit) \<times> pref_model" where
  "set_value reg self v =
     (case preference reg self of
        (Inl e, self1) \<Rightarrow> (Inl e, self1)
      | (Inr p, self1) \<Rightarrow>
          (case serialize (serializer p) v of
             Inl e \<Rightarrow> (Inl e, self1)
           | Inr t \<Rightarrow> (Inr (), self1\<lparr>raw_value := Some t\<rparr>)))"

text \<open>\<open>return self.preference.serializer.deserialize(self.raw_value)\<close>\<close>

definition get_value :: "registry \<Rightarrow> pref_model \<Rightarrow> (error + pyval) \<times> pref_model" where
  "get_value reg self =
     (case preference reg self of
        (Inl e, self1) \<Rightarrow> (Inl e, self1)
      | (Inr p, self1) \<Rightarrow> (deserialize (serializer p) (raw_value self1), self1))"

text \<open>
  \<open>BasePreferenceModel.__init__\<close>: pop \<open>value\<close> (default \<open>None\<close>), run the
  model constructor, and for an instance without primary key assign either the
  popped value or the preference's default through the \<open>value\<close> property. An
  exception leaves no instance.
\<close>

definition init :: "registry \<Rightarrow> init_kwargs \<Rightarrow> error + pref_model" where
  "init reg kwargs =
     (let v = (case kw_value kwargs of None \<Rightarrow> PNone | Some x \<Rightarrow> x);
          self = Model_init kwargs;
          new = (pk self = None)
      in if new then
           (if v \<noteq> PNone then
              (case set_value reg self v of
                 (Inl e, _) \<Rightarrow> Inl e
               | (Inr _, self1) \<Rightarrow> Inr self1)
            else
              (case preference reg self of
                 (Inl e, _) \<Rightarrow> Inl e
               | (Inr p, self1) \<Rightarrow>
                   (case set_value reg self1 (default_value p) of
                      (Inl e, _) \<Rightarrow> Inl e
                    | (Inr _, self2) \<Rightarrow> Inr self2)))
         else Inr self)"

subsection \<open>PreferenceModelManager.to\_dict\<close>

text \<open>
  The queryset: the rows of the table in scan order, narrowed by the field
  equalities of \<open>**kwargs\<close> when there are any. Each scanned row becomes a model
  instance through the constructor, with its primary key set and no \<open>value\<close>
  keyword.
\<close>

datatype lookup =
    Id_is int
  | Section_is "string option"
  | Name_is string
  | Raw_value_is "string option"
  | Instance_is "nat option"

fun matches :: "db_row \<Rightarrow> lookup \<Rightarrow> bool" where
  "matches r (Id_is i) = (row_id r = i)"
| "matches r (Section_is s) = (row_section r = s)"
| "matches r (Name_is n) = (row_name r = n)"
| "matches r (Raw_value_is t) = (row_raw_value r = t)"
| "matches r (Instance_is i) = (row_instance r = i)"

definition qs_filter :: "lookup list \<Rightarrow> db_row list \<Rightarrow> db_row list" where
  "qs_filter kwargs rows = filter (\<lambda>r. list_all (matches r) kwargs) rows"

definition from_db :: "registry \<Rightarrow> db_row \<Rightarrow> error + pref_model" where
  "from_db reg r =
     init reg \<lparr>kw_pk = Some (row_id r), kw_section = row_section r, kw_name = row_name r,
               kw_raw_value = row_raw_value r, kw_instance = row_instance r,
               kw_value = None\<rparr>"

type_synonym pref_dict = "string option \<rightharpoonup> (string \<rightharpoonup> pyval)"

text \<open>
  \<open>d[s][n] = v\<close> once \<open>v\<close> is known: \<open>d[s]\<close> raises \<open>KeyError\<close> when the
  section is not a key yet.
\<close>

definition setitem2 :: "pref_dict \<Rightarrow> string option \<Rightarrow> string \<Rightarrow> pyval \<Rightarrow> error + pref_dict" where
  "setitem2 d s n v =
     (case d s of
        None \<Rightarrow> Inl KeyError
      | Some inner \<Rightarrow> Inr (d(s \<mapsto> inner(n \<mapsto> v))))"

text \<open>
  The statement \<open>d[p.section][p.name] = p.value\<close>: Python evaluates the right-hand
  side first, then the subscription \<open>d[p.section]\<close>, then stores.
\<close>

definition assign_value :: "registry \<Rightarrow> pref_dict \<Rightarrow> pref_model \<Rightarrow> (error + pref_dict) \<times> pref_model" where
  "assign_value reg d p =
     (case get_value reg p of
        (Inl e, p1) \<Rightarrow> (Inl e, p1)
      | (Inr v, p1) \<Rightarrow> (setitem2 d (section p1) (name p1) v, p1))"

text \<open>
  The loop body: the statement under \<open>try\<close>; on a \<open>KeyError\<close> (whoever raised
  it) the handler resets \<open>d[p.section]\<close> to an empty dict and runs the statement
  again; any other exception, and any exception of the handler, leaves the loop.
\<close>

definition to_dict_step :: "registry \<Rightarrow> pref_dict \<Rightarrow> pref_model \<Rightarrow> error + pref_dict" where
  "to_dict_step reg d p =
     (case assign_value reg d p of
        (Inr d1, _) \<Rightarrow> Inr d1
      | (Inl e, p1) \<Rightarrow>
          if is_KeyError e
          then fst (assign_value reg (d(section p1 \<mapsto> Map.empty)) p1)
          else Inl e)"

fun to_dict_loop :: "registry \<Rightarrow> pref_dict \<Rightarrow> db_row list \<Rightarrow> error + pref_dict" where
  "to_dict_loop reg d [] = Inr d"
| "to_dict_loop reg d (r # rs) =
     (case from_db reg r of
        Inl e \<Rightarrow> Inl e
      | Inr p \<Rightarrow>
          (case to_dict_step reg d p of
             Inl e \<Rightarrow> Inl e
           | Inr d1 \<Rightarrow> to_dict_loop reg d1 rs))"

definition to_dict :: "registry \<Rightarrow> db_row list \<Rightarrow> lookup list \<Rightarrow> error + pref_dict" where
  "to_dict reg table kwargs =
     (let preferences = table;
          preferences = (if kwargs \<noteq> [] then qs_filter kwargs preferences else preferences)
      in to_dict_loop reg Map.empty preferences)"

subsection \<open>The post\_save receiver\<close>

text \<open>
  \<open>per_instance_preferences\<close> (imported from the registries module) maps a model
  class to the preference model class bound to it; \<open>.get(sender)\<close> is \<open>None\<close> for
  an unmapped class. The receiver reads only the \<open>registry\<close> attribute of the
  preference class. The table is passed through: the registry call is the only
  effect.
\<close>

record preference_class =
  registry :: registry

definition create_default_per_instance_preferences ::
  "('sender \<rightharpoonup> preference_class) \<Rightarrow> 'sender \<Rightarrow> bool \<Rightarrow> nat \<Rightarrow> db_row list \<Rightarrow> error + db_row list" where
  "create_default_per_instance_preferences per_instance_preferences sender created inst table =
     (let preference_class = per_instance_preferences sender
      in if created
         then (case preference_class of
                 None \<Rightarrow> Inr table
               | Some pc \<Rightarrow> create_default_preferences (registry pc) inst table)
         else Inr table)"

subsection \<open>Notions used to state the properties\<close>

text \<open>
  What reading \<open>p.value\<close> gives on the instance built from a scanned row: the
  value, or the exception raised.
\<close>

definition row_value :: "registry \<Rightarrow> db_row \<Rightarrow> error + pyval" where
  "row_value reg r =
     (case from_db reg r of
        Inl e \<Rightarrow> Inl e
      | Inr p \<Rightarrow> fst (get_value reg p))"

text \<open>The entry of a two-level mapping at \<open>(section, name)\<close>, if there is one.\<close>

definition entry :: "pref_dict \<Rightarrow> string option \<Rightarrow> string \<Rightarrow> pyval option" where
  "entry d s n = (case d s of None \<Rightarrow> None | Some inner \<Rightarrow> inner n)"

text \<open>
  The mapping \<open>d\<close> after \<open>d[s][n] = v\<close> with the section created when it is
  missing: the net effect of one successful loop iteration.
\<close>

definition store_entry :: "pref_dict \<Rightarrow> string option \<Rightarrow> string \<Rightarrow> pyval \<Rightarrow> pref_dict" where
  "store_entry d s n v =
     d(s \<mapsto> (case d s of None \<Rightarrow> Map.empty | Some inner \<Rightarrow> inner)(n \<mapsto> v))"

fun store_all :: "pref_dict \<Rightarrow> db_row list \<Rightarrow> (db_row \<Rightarrow> pyval) \<Rightarrow> pref_dict" where
  "store_all d [] val = d"
| "store_all d (r # rs) val = store_all (store_entry d (row_section r) (row_name r) (val r)) rs val"

text \<open>The first exception met when the rows are decoded in scan order, if any.\<close>

fun first_error :: "registry \<Rightarrow> db_row list \<Rightarrow> error option" where
  "first_error reg [] = None"
| "first_error reg (r # rs) =
     (case row_value reg r of
        Inl e \<Rightarrow> Some e
      | Inr _ \<Rightarrow> first_error reg rs)"

text \<open>
  The value of the last row of the scan that carries the coordinates
  \<open>(s, n)\<close> and decodes, if there is one.
\<close>

fun last_row_value :: "registry \<Rightarrow> db_row list \<Rightarrow> string option \<Rightarrow> string \<Rightarrow> pyval option" where
  "last_row_value reg [] s n = None"
| "last_row_value reg (r # rs) s n =
     (case last_row_value reg rs s n of
        Some w \<Rightarrow> Some w
      | None \<Rightarrow>
          if row_section r = s \<and> row_name r = n
          then (case row_value reg r of Inl _ \<Rightarrow> None | Inr v \<Rightarrow> Some v)
          else None)"

subsection \<open>A small registry for concrete evaluations\<close>

text \<open>
  A serializer for booleans that also accepts \<open>None\<close>, three preferences using
  it, and a registry holding them. Its \<open>get\<close> raises \<open>KeyError\<close> for unknown
  coordinates; its \<open>create_default_preferences\<close> appends one row per
  preference for the owner, holding the serialized default.
\<close>

definition nullable_bool_serializer :: serializer where
  "nullable_bool_serializer =
     \<lparr>serialize = (\<lambda>v. case v of
          PNone \<Rightarrow> Inr ''None''
        | PBool b \<Rightarrow> Inr (if b then ''True'' else ''False'')
        | PInt _ \<Rightarrow> Inl SerializationError
        | PStr _ \<Rightarrow> Inl SerializationError),
      deserialize = (\<lambda>t.
          if t = Some ''None'' then Inr PNone
          else if t = Some ''True'' then Inr (PBool True)
          else if t = Some ''False'' then Inr (PBool False)
          else Inl DeserializationError)\<rparr>"

definition on_preference :: preference where
  "on_preference = \<lparr>default_value = PBool True, serializer = nullable_bool_serializer\<rparr>"

definition off_preference :: preference where
  "off_preference = \<lparr>default_value = PBool False, serializer = nullable_bool_serializer\<rparr>"

definition example_get :: "string option \<Rightarrow> string \<Rightarrow> error + preference" where
  "example_get s n =
     (if s = Some ''ui'' \<and> n = ''flag'' then Inr on_preference
      else if s = Some ''ui'' \<and> n = ''dark'' then Inr off_preference
      else if s = None \<and> n = ''beta'' then Inr off_preference
      else Inl KeyError)"

definition example_create :: "nat \<Rightarrow> db_row list \<Rightarrow> error + db_row list" where
  "example_create inst table =
     Inr (table @
       [\<lparr>row_id = int (length table) + 1, row_section = Some ''ui'', row_name = ''flag'',
         row_raw_value = Some ''True'', row_instance = Some inst\<rparr>,
        \<lparr>row_id = int (length table) + 2, row_section = Some ''ui'', row_name = ''dark'',
         row_raw_value = Some ''False'', row_instance = Some inst\<rparr>,
        \<lparr>row_id = int (length table) + 3, row_section = None, row_name = ''beta'',
         row_raw_value = Some ''False'', row_instance = Some inst\<rparr>])"

definition example_registry :: registry where
  "example_registry = \<lparr>get = example_get, create_default_preferences = example_create\<rparr>"

definition example_index :: "string \<rightharpoonup> preference_class" where
  "example_index = [''User'' \<mapsto> \<lparr>registry = example_registry\<rparr>]"

definition mk_row :: "int \<Rightarrow> string option \<Rightarrow> string \<Rightarrow> string option \<Rightarrow> nat option \<Rightarrow> db_row" where
  "mk_row i s n t ow =
     \<lparr>row_id = i, row_section = s, row_name = n, row_raw_value = t, row_instance = ow\<rparr>"

definition example_table :: "db_row list" where
  "example_table =
     [mk_row 1 (Some ''ui'') ''flag'' (Some ''True'') None,
      mk_row 2 (Some ''ui'') ''dark'' (Some ''False'') None,
      mk_row 3 None ''beta'' (Some ''None'') None]"

text \<open>The same table with a row whose coordinates the registry does not know, and
  one whose text the deserializer rejects.\<close>

definition drifted_table :: "db_row list" where
  "drifted_table =
     [mk_row 1 (Some ''ui'') ''flag'' (Some ''True'') None,
      mk_row 2 (Some ''ui'') ''gone'' (Some ''False'') None,
      mk_row 3 None ''beta'' (Some ''garbage'') None]"

text \<open>Two owners holding the same preference.\<close>

definition owners_table :: "db_row list" where
  "owners_table =
     [mk_row 1 (Some ''ui'') ''flag'' (Some ''True'') (Some 1),
      mk_row 2 (Some ''ui'') ''flag'' (Some ''False'') (Some 2)]"

definition fresh_kwargs :: "string option \<Rightarrow> string \<Rightarrow> pyval option \<Rightarrow> init_kwargs" where
  "fresh_kwargs s n v =
     \<lparr>kw_pk = None, kw_section = s, kw_name = n, kw_raw_value = None, kw_instance = None,
      kw_value = v\<rparr>"

section \<open>Properties\<close>

subsection \<open>The accessors\<close>

lemma preference_fresh:
  "preference reg (Model_init kwargs) =
     (case get reg (kw_section kwargs) (kw_name kwargs) of
        Inl e \<Rightarrow> (Inl e, Model_init kwargs)
      | Inr p \<Rightarrow> (Inr p, (Model_init kwargs)\<lparr>preference_cache := Some p\<rparr>))"
  by (simp add: preference_def Model_init_def split: sum.splits)

lemma preference_cached:
  "preference_cache self = Some p \<Longrightarrow> preference reg self = (Inr p, self)"
  by (simp add: preference_def)

lemma preference_found:
  "fst (preference reg self) = Inr p \<Longrightarrow>
     preference reg self = (Inr p, self\<lparr>preference_cache := Some p\<rparr>)"
  by (auto simp: preference_def split: option.splits sum.splits)

lemma set_value_rejected:
  assumes "fst (preference reg self) = Inr p"
    and "serialize (serializer p) v = Inl e"
  shows "set_value reg self v = (Inl e, self\<lparr>preference_cache := Some p\<rparr>)"
  using assms by (simp add: set_value_def preference_found)

lemma set_value_accepted:
  assumes "fst (preference reg self) = Inr p"
    and "serialize (serializer p) v = Inr t"
  shows "set_value reg self v = (Inr (), self\<lparr>preference_cache := Some p, raw_value := Some t\<rparr>)"
  using assms by (simp add: set_value_def preference_found)

lemma get_value_found:
  assumes "fst (preference reg self) = Inr p"
  shows "get_value reg self =
           (deserialize (serializer p) (raw_value self), self\<lparr>preference_cache := Some p\<rparr>)"
  using assms by (simp add: get_value_def preference_found)

lemma init_without_value:
  assumes "kw_pk kwargs = None"
    and "kw_value kwargs = None \<or> kw_value kwargs = Some PNone"
    and "get reg (kw_section kwargs) (kw_name kwargs) = Inr p"
    and "serialize (serializer p) (default_value p) = Inr t"
  shows "init reg kwargs =
           Inr ((Model_init kwargs)\<lparr>preference_cache := Some p, raw_value := Some t\<rparr>)"
proof -
  let ?self = "Model_init kwargs"
  let ?self1 = "?self\<lparr>preference_cache := Some p\<rparr>"
  have new: "pk ?self = None"
    using assms(1) by (simp add: Model_init_def)
  have v: "(case kw_value kwargs of None \<Rightarrow> PNone | Some x \<Rightarrow> x) = PNone"
    using assms(2) by auto
  have look: "preference reg ?self = (Inr p, ?self1)"
    using assms(3) by (simp add: preference_fresh)
  have "fst (preference reg ?self1) = Inr p"
    by (simp add: preference_cached)
  then have store: "set_value reg ?self1 (default_value p) = (Inr (), ?self1\<lparr>raw_value := Some t\<rparr>)"
    using assms(4) by (simp add: set_value_accepted)
  show ?thesis
    using new v look store by (simp add: init_def Let_def)
qed

lemma init_with_value:
  assumes "kw_pk kwargs = None"
    and "kw_value kwargs = Some v"
    and "v \<noteq> PNone"
    and "get reg (kw_section kwargs) (kw_name kwargs) = Inr p"
    and "serialize (serializer p) v = Inr t"
  shows "init reg kwargs =
           Inr ((Model_init kwargs)\<lparr>preference_cache := Some p, raw_value := Some t\<rparr>)"
proof -
  let ?self = "Model_init kwargs"
  have new: "pk ?self = None"
    using assms(1) by (simp add: Model_init_def)
  have "fst (preference reg ?self) = Inr p"
    using assms(4) by (simp add: preference_fresh)
  then have store: "set_value reg ?self v = (Inr (), ?self\<lparr>preference_cache := Some p, raw_value := Some t\<rparr>)"
    using assms(5) by (simp add: set_value_accepted)
  show ?thesis
    using new assms(2,3) store by (simp add: init_def Let_def)
qed

lemma get_value_after_init:
  "fst (get_value reg (self\<lparr>preference_cache := Some p, raw_value := Some t\<rparr>)) =
     deserialize (serializer p) (Some t)"
  by (simp add: get_value_def preference_def)

lemma init_persisted:
  "kw_pk kwargs = Some k \<Longrightarrow> init reg kwargs = Inr (Model_init kwargs)"
  by (simp add: init_def Let_def Model_init_def)

lemma Model_init_ignores_value:
  "Model_init (kwargs\<lparr>kw_value := x\<rparr>) = Model_init kwargs"
  by (simp add: Model_init_def)

lemma init_None_value:
  "init reg (kwargs\<lparr>kw_value := Some PNone\<rparr>) = init reg (kwargs\<lparr>kw_value := None\<rparr>)"
  by (simp add: init_def Let_def Model_init_def)

subsection \<open>The loop of to\_dict\<close>

lemma from_db_eq:
  "from_db reg r =
     Inr \<lparr>pk = Some (row_id r), section = row_section r, name = row_name r,
          raw_value = row_raw_value r, instance = row_instance r, preference_cache = None\<rparr>"
  by (simp add: from_db_def init_def Let_def Model_init_def)

lemma row_value_eq:
  "row_value reg r =
     (case get reg (row_section r) (row_name r) of
        Inl e \<Rightarrow> Inl e
      | Inr p \<Rightarrow> deserialize (serializer p) (row_raw_value r))"
  by (simp add: row_value_def from_db_eq get_value_def preference_def split: sum.splits)

lemma get_value_again:
  "get_value reg p = (res, p1) \<Longrightarrow> get_value reg p1 = (res, p1)"
  by (auto simp: get_value_def preference_def split: option.splits sum.splits)

lemma get_value_coordinates:
  "get_value reg p = (res, p1) \<Longrightarrow> section p1 = section p \<and> name p1 = name p"
  by (auto simp: get_value_def preference_def split: option.splits sum.splits)

lemma to_dict_step_eq:
  "to_dict_step reg d p =
     (case fst (get_value reg p) of
        Inl e \<Rightarrow> Inl e
      | Inr v \<Rightarrow> Inr (store_entry d (section p) (name p) v))"
proof -
  obtain res p1 where gv: "get_value reg p = (res, p1)"
    by (cases "get_value reg p")
  have again: "get_value reg p1 = (res, p1)"
    using gv by (rule get_value_again)
  have co: "section p1 = section p" "name p1 = name p"
    using get_value_coordinates [OF gv] by simp_all
  show ?thesis
  proof (cases res)
    case (Inl e)
    then show ?thesis
      using gv again by (simp add: to_dict_step_def assign_value_def)
  next
    case (Inr v)
    show ?thesis
    proof (cases "d (section p)")
      case None
      then show ?thesis
        using gv again co Inr
        by (simp add: to_dict_step_def assign_value_def setitem2_def store_entry_def)
    next
      case (Some inner)
      then show ?thesis
        using gv co Inr
        by (simp add: to_dict_step_def assign_value_def setitem2_def store_entry_def)
    qed
  qed
qed

lemma to_dict_loop_step:
  "to_dict_loop reg d (r # rs) =
     (case row_value reg r of
        Inl e \<Rightarrow> Inl e
      | Inr v \<Rightarrow> to_dict_loop reg (store_entry d (row_section r) (row_name r) v) rs)"
  by (simp add: row_value_def from_db_eq to_dict_step_eq split: sum.splits)

lemma to_dict_loop_error:
  "first_error reg rs = Some e \<Longrightarrow> to_dict_loop reg d rs = Inl e"
proof (induction rs arbitrary: d)
  case Nil
  then show ?case by simp
next
  case (Cons r rs)
  show ?case
  proof (cases "row_value reg r")
    case (Inl e')
    with Cons.prems show ?thesis
      by (simp add: to_dict_loop_step del: to_dict_loop.simps)
  next
    case (Inr v)
    with Cons show ?thesis
      by (simp add: to_dict_loop_step del: to_dict_loop.simps)
  qed
qed

lemma to_dict_loop_ok:
  "first_error reg rs = None \<Longrightarrow>
     to_dict_loop reg d rs = Inr (store_all d rs (\<lambda>r. projr (row_value reg r)))"
proof (induction rs arbitrary: d)
  case Nil
  then show ?case by simp
next
  case (Cons r rs)
  show ?case
  proof (cases "row_value reg r")
    case (Inl e')
    with Cons.prems show ?thesis by simp
  next
    case (Inr v)
    with Cons show ?thesis
      by (simp add: to_dict_loop_step del: to_dict_loop.simps)
  qed
qed

lemma first_error_None_iff:
  "first_error reg rs = None \<longleftrightarrow> (\<forall>r \<in> set rs. \<exists>v. row_value reg r = Inr v)"
  by (induction rs) (auto split: sum.splits)

lemma first_error_Some:
  "first_error reg rs = Some e \<Longrightarrow> \<exists>r \<in> set rs. row_value reg r = Inl e"
  by (induction rs) (auto split: sum.splits)

lemma first_error_exists:
  "r \<in> set rs \<Longrightarrow> row_value reg r = Inl e \<Longrightarrow> \<exists>e'. first_error reg rs = Some e'"
  by (induction rs) (auto split: sum.splits)

lemma to_dict_scan:
  "to_dict reg table kwargs = to_dict_loop reg Map.empty (qs_filter kwargs table)"
  by (simp add: to_dict_def Let_def qs_filter_def)

lemma dom_store_entry: "dom (store_entry d s n v) = insert s (dom d)"
  by (simp add: store_entry_def)

lemma dom_store_all: "dom (store_all d rs val) = dom d \<union> row_section ` set rs"
  by (induction rs arbitrary: d) (auto simp: dom_store_entry)

lemma entry_store_entry:
  "entry (store_entry d s n v) s' n' = (if s' = s \<and> n' = n then Some v else entry d s' n')"
  by (simp add: entry_def store_entry_def split: option.splits)

lemma entry_store_all:
  "first_error reg rs = None \<Longrightarrow>
     entry (store_all d rs (\<lambda>r. projr (row_value reg r))) s n =
       (case last_row_value reg rs s n of Some w \<Rightarrow> Some w | None \<Rightarrow> entry d s n)"
proof (induction rs arbitrary: d)
  case Nil
  then show ?case by simp
next
  case (Cons r rs)
  from Cons.prems obtain v where v: "row_value reg r = Inr v" and rest: "first_error reg rs = None"
    by (auto split: sum.splits)
  show ?case
    using Cons.IH [OF rest] v
    by (simp add: entry_store_entry split: option.splits)
qed

lemma last_row_value_distinct:
  assumes "distinct (map (\<lambda>r. (row_section r, row_name r)) rs)"
    and "r \<in> set rs"
    and "row_value reg r = Inr v"
  shows "last_row_value reg rs (row_section r) (row_name r) = Some v"
  using assms
proof (induction rs)
  case Nil
  then show ?case by simp
next
  case (Cons a rs)
  show ?case
  proof (cases "r \<in> set rs")
    case True
    with Cons show ?thesis by simp
  next
    case False
    with Cons.prems have ra: "r = a" by simp
    have "last_row_value reg rs (row_section a) (row_name a) = None"
      using Cons.prems(1)
    proof (induction rs)
      case Nil
      then show ?case by simp
    next
      case (Cons b rs)
      then show ?case by (auto split: option.splits)
    qed
    with ra Cons.prems(3) show ?thesis by simp
  qed
qed

subsection \<open>Evaluating the example registry\<close>

lemma example_simps:
  "get example_registry = example_get"
  "create_default_preferences example_registry = example_create"
  "serializer on_preference = nullable_bool_serializer"
  "serializer off_preference = nullable_bool_serializer"
  "default_value on_preference = PBool True"
  "default_value off_preference = PBool False"
  by (simp_all add: example_registry_def on_preference_def off_preference_def)

lemma nullable_bool_simps:
  "serialize nullable_bool_serializer PNone = Inr ''None''"
  "serialize nullable_bool_serializer (PBool True) = Inr ''True''"
  "serialize nullable_bool_serializer (PBool False) = Inr ''False''"
  "serialize nullable_bool_serializer (PInt i) = Inl SerializationError"
  "serialize nullable_bool_serializer (PStr s) = Inl SerializationError"
  "deserialize nullable_bool_serializer (Some ''None'') = Inr PNone"
  "deserialize nullable_bool_serializer (Some ''True'') = Inr (PBool True)"
  "deserialize nullable_bool_serializer (Some ''False'') = Inr (PBool False)"
  "deserialize nullable_bool_serializer (Some ''garbage'') = Inl DeserializationError"
  "deserialize nullable_bool_serializer None = Inl DeserializationError"
  by (simp_all add: nullable_bool_serializer_def)

lemma example_get_simps:
  "example_get (Some ''ui'') ''flag'' = Inr on_preference"
  "example_get (Some ''ui'') ''dark'' = Inr off_preference"
  "example_get None ''beta'' = Inr off_preference"
  "example_get (Some ''ui'') ''gone'' = Inl KeyError"
  by (simp_all add: example_get_def)

lemma fresh_kwargs_simps:
  "kw_pk (fresh_kwargs s n v) = None"
  "kw_section (fresh_kwargs s n v) = s"
  "kw_name (fresh_kwargs s n v) = n"
  "kw_raw_value (fresh_kwargs s n v) = None"
  "kw_instance (fresh_kwargs s n v) = None"
  "kw_value (fresh_kwargs s n v) = v"
  by (simp_all add: fresh_kwargs_def)

lemma mk_row_simps:
  "row_id (mk_row i s n t ow) = i"
  "row_section (mk_row i s n t ow) = s"
  "row_name (mk_row i s n t ow) = n"
  "row_raw_value (mk_row i s n t ow) = t"
  "row_instance (mk_row i s n t ow) = ow"
  by (simp_all add: mk_row_def)

subsection \<open>Construction and the value property\<close>

text \<open>
  \<^bold>\<open>C1\<close> (default materialization). A fresh instance (no primary key), built with
  no \<open>value\<close> keyword for coordinates the registry knows, has the serialized
  default in \<open>raw_value\<close>; when the serializer decodes that text back to the
  default, reading \<open>value\<close> returns the default.
\<close>

theorem init_materializes_default:
  assumes "kw_pk kwargs = None"
    and "kw_value kwargs = None"
    and "get reg (kw_section kwargs) (kw_name kwargs) = Inr p"
    and "serialize (serializer p) (default_value p) = Inr t"
    and "deserialize (serializer p) (Some t) = Inr (default_value p)"
  shows "init reg kwargs =
           Inr ((Model_init kwargs)\<lparr>preference_cache := Some p, raw_value := Some t\<rparr>)
         \<and> fst (get_value reg ((Model_init kwargs)\<lparr>preference_cache := Some p, raw_value := Some t\<rparr>))
             = Inr (default_value p)"
  using assms by (simp add: init_without_value get_value_after_init)

theorem init_materializes_default_witness:
  "init example_registry (fresh_kwargs (Some ''ui'') ''flag'' None) =
     Inr \<lparr>pk = None, section = Some ''ui'', name = ''flag'', raw_value = Some ''True'',
          instance = None, preference_cache = Some on_preference\<rparr>
   \<and> fst (get_value example_registry
        \<lparr>pk = None, section = Some ''ui'', name = ''flag'', raw_value = Some ''True'',
         instance = None, preference_cache = Some on_preference\<rparr>) = Inr (PBool True)"
  using init_materializes_default
    [of "fresh_kwargs (Some ''ui'') ''flag'' None" example_registry on_preference "''True''"]
  by (simp add: example_simps nullable_bool_simps example_get_simps fresh_kwargs_simps Model_init_def)

text \<open>
  \<^bold>\<open>C2\<close> (explicit value), as the code has it: a fresh instance built with
  \<open>value=v\<close>, where \<open>v\<close> is not Python's \<open>None\<close>, is accepted by the
  serializer and round-trips, reads back \<open>v\<close> whatever the default is.
\<close>

theorem init_explicit_value:
  assumes "kw_pk kwargs = None"
    and "kw_value kwargs = Some v"
    and "v \<noteq> PNone"
    and "get reg (kw_section kwargs) (kw_name kwargs) = Inr p"
    and "serialize (serializer p) v = Inr t"
    and "deserialize (serializer p) (Some t) = Inr v"
  shows "init reg kwargs =
           Inr ((Model_init kwargs)\<lparr>preference_cache := Some p, raw_value := Some t\<rparr>)
         \<and> fst (get_value reg ((Model_init kwargs)\<lparr>preference_cache := Some p, raw_value := Some t\<rparr>))
             = Inr v"
  using assms by (simp add: init_with_value get_value_after_init)

theorem init_explicit_value_witness:
  "init example_registry (fresh_kwargs (Some ''ui'') ''flag'' (Some (PBool False))) =
     Inr \<lparr>pk = None, section = Some ''ui'', name = ''flag'', raw_value = Some ''False'',
          instance = None, preference_cache = Some on_preference\<rparr>
   \<and> fst (get_value example_registry
        \<lparr>pk = None, section = Some ''ui'', name = ''flag'', raw_value = Some ''False'',
         instance = None, preference_cache = Some on_preference\<rparr>) = Inr (PBool False)
   \<and> default_value on_preference = PBool True"
  using init_explicit_value
    [of "fresh_kwargs (Some ''ui'') ''flag'' (Some (PBool False))" "PBool False"
        example_registry on_preference "''False''"]
  by (simp add: example_simps nullable_bool_simps example_get_simps fresh_kwargs_simps Model_init_def)

text \<open>
  For \<open>v = None\<close> the statement of C2 without that restriction fails: with a
  preference whose default is \<open>True\<close> and whose serializer accepts \<open>None\<close>
  and round-trips it, the instance built with \<open>value=None\<close> reads back
  \<open>True\<close>.
\<close>

theorem init_explicit_None_counterexample:
  "kw_pk (fresh_kwargs (Some ''ui'') ''flag'' (Some PNone)) = None
   \<and> kw_value (fresh_kwargs (Some ''ui'') ''flag'' (Some PNone)) = Some PNone
   \<and> get example_registry (Some ''ui'') ''flag'' = Inr on_preference
   \<and> serialize (serializer on_preference) PNone = Inr ''None''
   \<and> deserialize (serializer on_preference) (Some ''None'') = Inr PNone
   \<and> init example_registry (fresh_kwargs (Some ''ui'') ''flag'' (Some PNone)) =
       Inr \<lparr>pk = None, section = Some ''ui'', name = ''flag'', raw_value = Some ''True'',
            instance = None, preference_cache = Some on_preference\<rparr>
   \<and> fst (get_value example_registry
        \<lparr>pk = None, section = Some ''ui'', name = ''flag'', raw_value = Some ''True'',
         instance = None, preference_cache = Some on_preference\<rparr>) = Inr (PBool True)
   \<and> PBool True \<noteq> PNone"
proof -
  have "init example_registry (fresh_kwargs (Some ''ui'') ''flag'' (Some PNone)) =
       Inr \<lparr>pk = None, section = Some ''ui'', name = ''flag'', raw_value = Some ''True'',
            instance = None, preference_cache = Some on_preference\<rparr>"
    by (simp add: init_def Let_def Model_init_def preference_def set_value_def
        example_simps nullable_bool_simps example_get_simps fresh_kwargs_simps)
  moreover have "fst (get_value example_registry
        \<lparr>pk = None, section = Some ''ui'', name = ''flag'', raw_value = Some ''True'',
         instance = None, preference_cache = Some on_preference\<rparr>) = Inr (PBool True)"
    by (simp add: get_value_def preference_def example_simps nullable_bool_simps)
  ultimately show ?thesis
    by (simp add: example_simps nullable_bool_simps example_get_simps fresh_kwargs_simps)
qed

text \<open>
  \<^bold>\<open>C5\<close>. When the serializer of the instance's preference rejects \<open>v\<close>,
  assigning \<open>v\<close> to \<open>value\<close> raises the serializer's exception and
  \<open>raw_value\<close> is what it was before.
\<close>

theorem set_value_rejected_keeps_raw_value:
  assumes "fst (preference reg self) = Inr p"
    and "serialize (serializer p) v = Inl e"
  shows "fst (set_value reg self v) = Inl e
         \<and> raw_value (snd (set_value reg self v)) = raw_value self"
  using assms by (simp add: set_value_rejected)

theorem set_value_rejected_keeps_raw_value_witness:
  "fst (set_value example_registry
         \<lparr>pk = Some 1, section = Some ''ui'', name = ''flag'', raw_value = Some ''True'',
          instance = None, preference_cache = None\<rparr> (PInt 5)) = Inl SerializationError
   \<and> raw_value (snd (set_value example_registry
         \<lparr>pk = Some 1, section = Some ''ui'', name = ''flag'', raw_value = Some ''True'',
          instance = None, preference_cache = None\<rparr> (PInt 5))) = Some ''True''"
  using set_value_rejected_keeps_raw_value
    [of example_registry
        "\<lparr>pk = Some 1, section = Some ''ui'', name = ''flag'', raw_value = Some ''True'',
          instance = None, preference_cache = None\<rparr>"
        on_preference "PInt 5" SerializationError]
  by (simp add: preference_def example_simps nullable_bool_simps example_get_simps)

text \<open>
  \<^bold>\<open>C6\<close>. When the deserializer of the instance's preference raises on
  \<open>raw_value\<close>, reading \<open>value\<close> raises that exception: no value, the default
  included, is returned instead, and \<open>raw_value\<close> is not repaired.
\<close>

theorem get_value_undecodable_raises:
  assumes "fst (preference reg self) = Inr p"
    and "deserialize (serializer p) (raw_value self) = Inl e"
  shows "fst (get_value reg self) = Inl e
         \<and> (\<forall>v. fst (get_value reg self) \<noteq> Inr v)
         \<and> raw_value (snd (get_value reg self)) = raw_value self"
  using assms by (simp add: get_value_found)

theorem get_value_undecodable_raises_witness:
  "fst (get_value example_registry
         \<lparr>pk = Some 1, section = Some ''ui'', name = ''flag'', raw_value = Some ''garbage'',
          instance = None, preference_cache = None\<rparr>) = Inl DeserializationError
   \<and> fst (get_value example_registry
         \<lparr>pk = Some 1, section = Some ''ui'', name = ''flag'', raw_value = Some ''garbage'',
          instance = None, preference_cache = None\<rparr>) \<noteq> Inr (default_value on_preference)"
  using get_value_undecodable_raises
    [of example_registry
        "\<lparr>pk = Some 1, section = Some ''ui'', name = ''flag'', raw_value = Some ''garbage'',
          instance = None, preference_cache = None\<rparr>"
        on_preference DeserializationError]
  by (simp add: preference_def example_simps nullable_bool_simps example_get_simps)

text \<open>
  \<^bold>\<open>C8\<close>. An instance built with its primary key set is exactly what the model
  constructor built: the registry is not consulted, a \<open>value\<close> keyword is
  dropped, and \<open>raw_value\<close> is the loaded one.
\<close>

theorem init_persisted_keeps_raw_value:
  assumes "kw_pk kwargs = Some k"
  shows "init reg kwargs = Inr (Model_init kwargs)
         \<and> raw_value (Model_init kwargs) = kw_raw_value kwargs
         \<and> preference_cache (Model_init kwargs) = None"
  using assms by (simp add: init_persisted) (simp add: Model_init_def)

theorem init_persisted_keeps_raw_value_witness:
  "init example_registry
     \<lparr>kw_pk = Some 4, kw_section = Some ''ui'', kw_name = ''flag'', kw_raw_value = Some ''False'',
      kw_instance = None, kw_value = Some (PBool True)\<rparr> =
     Inr \<lparr>pk = Some 4, section = Some ''ui'', name = ''flag'', raw_value = Some ''False'',
          instance = None, preference_cache = None\<rparr>"
  using init_persisted_keeps_raw_value
    [of "\<lparr>kw_pk = Some 4, kw_section = Some ''ui'', kw_name = ''flag'',
          kw_raw_value = Some ''False'', kw_instance = None, kw_value = Some (PBool True)\<rparr>"
        4 example_registry]
  by (simp add: Model_init_def)

text \<open>
  \<^bold>\<open>C9\<close>. Passing \<open>value=None\<close> builds the same instance (or raises the same
  exception) as passing no \<open>value\<close>; for a fresh instance with known
  coordinates this is the instance holding the serialized default.
\<close>

theorem init_value_None_is_no_value:
  "init reg (kwargs\<lparr>kw_value := Some PNone\<rparr>) = init reg (kwargs\<lparr>kw_value := None\<rparr>)
   \<and> (kw_pk kwargs = None
        \<and> get reg (kw_section kwargs) (kw_name kwargs) = Inr p
        \<and> serialize (serializer p) (default_value p) = Inr t
      \<longrightarrow> init reg (kwargs\<lparr>kw_value := Some PNone\<rparr>) =
            Inr ((Model_init kwargs)\<lparr>preference_cache := Some p, raw_value := Some t\<rparr>))"
proof -
  have "init reg (kwargs\<lparr>kw_value := Some PNone\<rparr>) =
          Inr ((Model_init kwargs)\<lparr>preference_cache := Some p, raw_value := Some t\<rparr>)"
    if "kw_pk kwargs = None" "get reg (kw_section kwargs) (kw_name kwargs) = Inr p"
      "serialize (serializer p) (default_value p) = Inr t"
    using init_without_value [of "kwargs\<lparr>kw_value := Some PNone\<rparr>" reg p t] that
    by (simp add: Model_init_ignores_value)
  then show ?thesis
    by (simp add: init_None_value)
qed

theorem init_value_None_is_no_value_witness:
  "init example_registry (fresh_kwargs (Some ''ui'') ''dark'' (Some PNone)) =
     init example_registry (fresh_kwargs (Some ''ui'') ''dark'' None)
   \<and> init example_registry (fresh_kwargs (Some ''ui'') ''dark'' (Some PNone)) =
       Inr \<lparr>pk = None, section = Some ''ui'', name = ''dark'', raw_value = Some ''False'',
            instance = None, preference_cache = Some off_preference\<rparr>"
  using init_value_None_is_no_value
    [of example_registry "fresh_kwargs (Some ''ui'') ''dark'' None" off_preference "''False''"]
  by (auto simp add: example_simps nullable_bool_simps example_get_simps fresh_kwargs_def Model_init_def)

lemma last_row_value_absent:
  "\<forall>r \<in> set rs. \<not> (row_section r = s \<and> row_name r = n) \<Longrightarrow> last_row_value reg rs s n = None"
  by (induction rs) auto

lemma last_row_value_append:
  "last_row_value reg (xs @ ys) s n =
     (case last_row_value reg ys s n of Some w \<Rightarrow> Some w | None \<Rightarrow> last_row_value reg xs s n)"
  by (induction xs) (auto split: option.splits)

lemma entry_empty: "entry Map.empty s n = None"
  by (simp add: entry_def)

lemma to_dict_decodable:
  assumes "\<forall>r \<in> set (qs_filter kwargs table). \<exists>v. row_value reg r = Inr v"
  shows "to_dict reg table kwargs =
           Inr (store_all Map.empty (qs_filter kwargs table) (\<lambda>r. projr (row_value reg r)))"
  using assms by (simp add: to_dict_scan to_dict_loop_ok first_error_None_iff)

lemma entry_to_dict:
  assumes "\<forall>r \<in> set (qs_filter kwargs table). \<exists>v. row_value reg r = Inr v"
  shows "entry (store_all Map.empty (qs_filter kwargs table) (\<lambda>r. projr (row_value reg r))) s n =
           last_row_value reg (qs_filter kwargs table) s n"
proof -
  have "first_error reg (qs_filter kwargs table) = None"
    using assms by (simp add: first_error_None_iff)
  then show ?thesis
    by (simp add: entry_store_all entry_empty split: option.splits)
qed

lemma to_dict_three_rows:
  assumes "row_section r1 = s1" "row_section r2 = s1" "row_section r3 = s2" "s1 \<noteq> s2"
    and "row_value reg r1 = Inr v1" "row_value reg r2 = Inr v2" "row_value reg r3 = Inr v3"
  shows "to_dict reg [r1, r2, r3] [] =
           Inr [s1 \<mapsto> [row_name r1 \<mapsto> v1, row_name r2 \<mapsto> v2], s2 \<mapsto> [row_name r3 \<mapsto> v3]]"
  using assms
  by (simp add: to_dict_scan qs_filter_def to_dict_loop_step store_entry_def
      del: to_dict_loop.simps(2))

subsection \<open>The bulk read\<close>

text \<open>
  \<^bold>\<open>C3\<close> (grouping), as the code has it. When every scanned row decodes,
  \<open>to_dict\<close> returns a mapping whose top-level keys are exactly the sections of
  the scanned rows (the null section included, as the key \<open>None\<close>), and whose
  entry at \<open>(section, name)\<close> is the value of the last scanned row with these
  coordinates; when no two scanned rows share their coordinates, every row finds
  its own value there. For three rows \<open>(s1, n1, v1)\<close>, \<open>(s1, n2, v2)\<close>,
  \<open>(s2, n3, v3)\<close> with two different sections the result is
  \<open>{s1: {n1: v1, n2: v2}, s2: {n3: v3}}\<close>.
\<close>

theorem to_dict_groups:
  "((\<forall>r \<in> set (qs_filter kwargs table). \<exists>v. row_value reg r = Inr v) \<longrightarrow>
      (\<exists>d. to_dict reg table kwargs = Inr d
         \<and> dom d = row_section ` set (qs_filter kwargs table)
         \<and> (\<forall>s n. entry d s n = last_row_value reg (qs_filter kwargs table) s n)
         \<and> (distinct (map (\<lambda>r. (row_section r, row_name r)) (qs_filter kwargs table)) \<longrightarrow>
              (\<forall>r \<in> set (qs_filter kwargs table).
                 Inr (the (entry d (row_section r) (row_name r))) = row_value reg r
                 \<and> entry d (row_section r) (row_name r) \<noteq> None))))
   \<and> (row_section r1 = s1 \<and> row_section r2 = s1 \<and> row_section r3 = s2 \<and> s1 \<noteq> s2
        \<and> row_value reg r1 = Inr v1 \<and> row_value reg r2 = Inr v2 \<and> row_value reg r3 = Inr v3
      \<longrightarrow> to_dict reg [r1, r2, r3] [] =
            Inr [s1 \<mapsto> [row_name r1 \<mapsto> v1, row_name r2 \<mapsto> v2], s2 \<mapsto> [row_name r3 \<mapsto> v3]])"
proof (intro conjI impI)
  assume dec: "\<forall>r \<in> set (qs_filter kwargs table). \<exists>v. row_value reg r = Inr v"
  let ?rows = "qs_filter kwargs table"
  let ?d = "store_all Map.empty ?rows (\<lambda>r. projr (row_value reg r))"
  have res: "to_dict reg table kwargs = Inr ?d"
    using dec by (rule to_dict_decodable)
  have keys: "dom ?d = row_section ` set ?rows"
    by (simp add: dom_store_all)
  have ent: "\<forall>s n. entry ?d s n = last_row_value reg ?rows s n"
    using dec by (simp add: entry_to_dict)
  have each: "\<forall>r \<in> set ?rows.
        Inr (the (entry ?d (row_section r) (row_name r))) = row_value reg r
        \<and> entry ?d (row_section r) (row_name r) \<noteq> None"
    if dist: "distinct (map (\<lambda>r. (row_section r, row_name r)) ?rows)"
  proof
    fix r assume r: "r \<in> set ?rows"
    with dec obtain v where v: "row_value reg r = Inr v" by blast
    have "last_row_value reg ?rows (row_section r) (row_name r) = Some v"
      using dist r v by (rule last_row_value_distinct)
    with ent v show "Inr (the (entry ?d (row_section r) (row_name r))) = row_value reg r
        \<and> entry ?d (row_section r) (row_name r) \<noteq> None"
      by simp
  qed
  show "\<exists>d. to_dict reg table kwargs = Inr d
         \<and> dom d = row_section ` set ?rows
         \<and> (\<forall>s n. entry d s n = last_row_value reg ?rows s n)
         \<and> (distinct (map (\<lambda>r. (row_section r, row_name r)) ?rows) \<longrightarrow>
              (\<forall>r \<in> set ?rows.
                 Inr (the (entry d (row_section r) (row_name r))) = row_value reg r
                 \<and> entry d (row_section r) (row_name r) \<noteq> None))"
    using res keys ent each by blast
next
  assume "row_section r1 = s1 \<and> row_section r2 = s1 \<and> row_section r3 = s2 \<and> s1 \<noteq> s2
        \<and> row_value reg r1 = Inr v1 \<and> row_value reg r2 = Inr v2 \<and> row_value reg r3 = Inr v3"
  then show "to_dict reg [r1, r2, r3] [] =
            Inr [s1 \<mapsto> [row_name r1 \<mapsto> v1, row_name r2 \<mapsto> v2], s2 \<mapsto> [row_name r3 \<mapsto> v3]]"
    by (simp add: to_dict_three_rows)
qed

theorem to_dict_groups_witness:
  "to_dict example_registry example_table [] =
     Inr [Some ''ui'' \<mapsto> [''flag'' \<mapsto> PBool True, ''dark'' \<mapsto> PBool False],
          None \<mapsto> [''beta'' \<mapsto> PNone]]"
  using to_dict_groups
    [where reg = example_registry
       and ?r1.0 = "mk_row 1 (Some ''ui'') ''flag'' (Some ''True'') None"
       and ?r2.0 = "mk_row 2 (Some ''ui'') ''dark'' (Some ''False'') None"
       and ?r3.0 = "mk_row 3 None ''beta'' (Some ''None'') None"
       and ?s1.0 = "Some ''ui''" and ?s2.0 = None
       and ?v1.0 = "PBool True" and ?v2.0 = "PBool False" and ?v3.0 = PNone]
  by (simp add: example_table_def row_value_eq mk_row_simps example_simps
      example_get_simps nullable_bool_simps)

text \<open>
  Without the restriction to rows of distinct coordinates, "every scanned row has
  its value under its coordinates" fails: both rows of the two-owner table decode,
  the first to \<open>True\<close>, and the entry at its coordinates is the second row's
  \<open>False\<close>.
\<close>

theorem to_dict_shared_coordinates_counterexample:
  "qs_filter [] owners_table =
     [mk_row 1 (Some ''ui'') ''flag'' (Some ''True'') (Some 1),
      mk_row 2 (Some ''ui'') ''flag'' (Some ''False'') (Some 2)]
   \<and> row_value example_registry (mk_row 1 (Some ''ui'') ''flag'' (Some ''True'') (Some 1))
       = Inr (PBool True)
   \<and> row_value example_registry (mk_row 2 (Some ''ui'') ''flag'' (Some ''False'') (Some 2))
       = Inr (PBool False)
   \<and> to_dict example_registry owners_table [] = Inr [Some ''ui'' \<mapsto> [''flag'' \<mapsto> PBool False]]
   \<and> entry [Some ''ui'' \<mapsto> [''flag'' \<mapsto> PBool False]]
         (row_section (mk_row 1 (Some ''ui'') ''flag'' (Some ''True'') (Some 1)))
         (row_name (mk_row 1 (Some ''ui'') ''flag'' (Some ''True'') (Some 1)))
       \<noteq> Some (PBool True)"
proof -
  have scan: "qs_filter [] owners_table =
     [mk_row 1 (Some ''ui'') ''flag'' (Some ''True'') (Some 1),
      mk_row 2 (Some ''ui'') ''flag'' (Some ''False'') (Some 2)]"
    by (simp add: qs_filter_def owners_table_def)
  have v1: "row_value example_registry (mk_row 1 (Some ''ui'') ''flag'' (Some ''True'') (Some 1))
       = Inr (PBool True)"
    by (simp add: row_value_eq mk_row_simps example_simps example_get_simps nullable_bool_simps)
  have v2: "row_value example_registry (mk_row 2 (Some ''ui'') ''flag'' (Some ''False'') (Some 2))
       = Inr (PBool False)"
    by (simp add: row_value_eq mk_row_simps example_simps example_get_simps nullable_bool_simps)
  have res: "to_dict example_registry owners_table [] =
       Inr [Some ''ui'' \<mapsto> [''flag'' \<mapsto> PBool False]]"
    by (simp add: to_dict_scan scan to_dict_loop_step row_value_eq store_entry_def mk_row_simps
        example_simps example_get_simps nullable_bool_simps
        del: to_dict_loop.simps(2))
  have ent: "entry [Some ''ui'' \<mapsto> [''flag'' \<mapsto> PBool False]]
         (row_section (mk_row 1 (Some ''ui'') ''flag'' (Some ''True'') (Some 1)))
         (row_name (mk_row 1 (Some ''ui'') ''flag'' (Some ''True'') (Some 1)))
       \<noteq> Some (PBool True)"
    by (simp add: entry_def mk_row_simps)
  from scan v1 v2 res ent show ?thesis by blast
qed

text \<open>
  \<^bold>\<open>C7\<close> (all or nothing). When a scanned row has coordinates for which the
  registry lookup raises, or a text on which its deserializer raises,
  \<open>to_dict\<close> raises: the exception of the first scanned row that does not
  decode. No mapping is returned.
\<close>

theorem to_dict_all_or_nothing:
  assumes "r \<in> set (qs_filter kwargs table)"
    and "get reg (row_section r) (row_name r) = Inl e
         \<or> (\<exists>p. get reg (row_section r) (row_name r) = Inr p
                \<and> deserialize (serializer p) (row_raw_value r) = Inl e)"
  shows "(\<exists>r' e'. r' \<in> set (qs_filter kwargs table) \<and> row_value reg r' = Inl e'
            \<and> first_error reg (qs_filter kwargs table) = Some e'
            \<and> to_dict reg table kwargs = Inl e')
         \<and> (\<forall>d. to_dict reg table kwargs \<noteq> Inr d)"
proof -
  have "row_value reg r = Inl e"
    using assms(2) by (auto simp: row_value_eq)
  with assms(1) obtain e' where fe: "first_error reg (qs_filter kwargs table) = Some e'"
    using first_error_exists by blast
  then have res: "to_dict reg table kwargs = Inl e'"
    by (simp add: to_dict_scan to_dict_loop_error)
  from fe obtain r' where "r' \<in> set (qs_filter kwargs table)" "row_value reg r' = Inl e'"
    using first_error_Some by blast
  with fe res show ?thesis by auto
qed

theorem to_dict_all_or_nothing_witness:
  "to_dict example_registry drifted_table [] = Inl KeyError
   \<and> to_dict example_registry drifted_table [Name_is ''beta''] = Inl DeserializationError"
proof -
  let ?gone = "mk_row 2 (Some ''ui'') ''gone'' (Some ''False'') None"
  let ?bad = "mk_row 3 None ''beta'' (Some ''garbage'') None"
  have scan1: "qs_filter [] drifted_table = drifted_table"
    by (simp add: qs_filter_def)
  have scan2: "qs_filter [Name_is ''beta''] drifted_table = [?bad]"
    by (simp add: qs_filter_def drifted_table_def mk_row_simps)
  have mem1: "?gone \<in> set (qs_filter [] drifted_table)"
    by (simp add: scan1) (simp add: drifted_table_def)
  have mem2: "?bad \<in> set (qs_filter [Name_is ''beta''] drifted_table)"
    by (simp add: scan2)
  have drift: "get example_registry (row_section ?gone) (row_name ?gone) = Inl KeyError
      \<or> (\<exists>p. get example_registry (row_section ?gone) (row_name ?gone) = Inr p
             \<and> deserialize (serializer p) (row_raw_value ?gone) = Inl KeyError)"
    by (simp add: mk_row_simps example_simps example_get_simps)
  have corrupt: "get example_registry (row_section ?bad) (row_name ?bad) = Inl DeserializationError
      \<or> (\<exists>p. get example_registry (row_section ?bad) (row_name ?bad) = Inr p
             \<and> deserialize (serializer p) (row_raw_value ?bad) = Inl DeserializationError)"
    by (simp add: mk_row_simps example_simps example_get_simps nullable_bool_simps)
  have fe1: "first_error example_registry (qs_filter [] drifted_table) = Some KeyError"
    by (simp add: scan1) (simp add: drifted_table_def row_value_eq mk_row_simps example_simps
        example_get_simps nullable_bool_simps)
  have fe2: "first_error example_registry (qs_filter [Name_is ''beta''] drifted_table)
      = Some DeserializationError"
    by (simp add: scan2 row_value_eq mk_row_simps example_simps
        example_get_simps nullable_bool_simps)
  from to_dict_all_or_nothing [OF mem1 drift] fe1
  have a: "to_dict example_registry drifted_table [] = Inl KeyError"
    by auto
  from to_dict_all_or_nothing [OF mem2 corrupt] fe2
  have b: "to_dict example_registry drifted_table [Name_is ''beta''] = Inl DeserializationError"
    by auto
  from a b show ?thesis by simp
qed

text \<open>
  \<^bold>\<open>C10\<close>. When two scanned rows of different owners carry the same
  coordinates and no later row does, the call succeeds and the one entry at these
  coordinates holds the value of the later row.
\<close>

theorem to_dict_last_record_wins:
  assumes "qs_filter kwargs table = pre @ r1 # mid @ r2 # post"
    and "row_section r1 = row_section r2"
    and "row_name r1 = row_name r2"
    and "row_instance r1 \<noteq> row_instance r2"
    and "\<forall>r \<in> set post. \<not> (row_section r = row_section r2 \<and> row_name r = row_name r2)"
    and "\<forall>r \<in> set (qs_filter kwargs table). \<exists>v. row_value reg r = Inr v"
    and "row_value reg r2 = Inr v2"
  shows "\<exists>d. to_dict reg table kwargs = Inr d
           \<and> entry d (row_section r1) (row_name r1) = Some v2"
proof -
  let ?rows = "qs_filter kwargs table"
  let ?d = "store_all Map.empty ?rows (\<lambda>r. projr (row_value reg r))"
  have res: "to_dict reg table kwargs = Inr ?d"
    using assms(6) by (rule to_dict_decodable)
  have "last_row_value reg post (row_section r2) (row_name r2) = None"
    using assms(5) by (rule last_row_value_absent)
  then have "last_row_value reg (r2 # post) (row_section r2) (row_name r2) = Some v2"
    using assms(7) by simp
  then have "last_row_value reg ((pre @ r1 # mid) @ r2 # post) (row_section r2) (row_name r2) = Some v2"
    by (simp only: last_row_value_append option.case)
  then have "last_row_value reg ?rows (row_section r2) (row_name r2) = Some v2"
    using assms(1) by simp
  then have "entry ?d (row_section r1) (row_name r1) = Some v2"
    using assms(2,3,6) by (simp add: entry_to_dict)
  with res show ?thesis by blast
qed

theorem to_dict_last_record_wins_witness:
  "\<exists>d. to_dict example_registry owners_table [] = Inr d
      \<and> entry d (Some ''ui'') ''flag'' = Some (PBool False)"
  using to_dict_last_record_wins
    [of "[]" owners_table "[]" "mk_row 1 (Some ''ui'') ''flag'' (Some ''True'') (Some 1)" "[]"
        "mk_row 2 (Some ''ui'') ''flag'' (Some ''False'') (Some 2)" "[]"
        example_registry "PBool False"]
  by (simp add: qs_filter_def owners_table_def row_value_eq mk_row_simps example_simps
      example_get_simps nullable_bool_simps)

subsection \<open>The receiver\<close>

text \<open>
  \<^bold>\<open>C4\<close>. For a creation whose sender is mapped, the receiver's effect and
  outcome are those of one call of the mapped class's
  \<open>registry.create_default_preferences(instance)\<close>, whatever that method does;
  for an update, or an unmapped sender, the table is returned unchanged and
  nothing is called.
\<close>

theorem hook_creates_defaults_once:
  "(created \<and> per_instance_preferences sender = Some pc \<longrightarrow>
      create_default_per_instance_preferences per_instance_preferences sender created inst table
        = create_default_preferences (registry pc) inst table)
   \<and> (\<not> created \<or> per_instance_preferences sender = None \<longrightarrow>
      create_default_per_instance_preferences per_instance_preferences sender created inst table
        = Inr table)"
  by (auto simp: create_default_per_instance_preferences_def Let_def)

theorem hook_creates_defaults_once_witness:
  "create_default_per_instance_preferences example_index ''User'' True 7 [] =
     Inr [mk_row 1 (Some ''ui'') ''flag'' (Some ''True'') (Some 7),
          mk_row 2 (Some ''ui'') ''dark'' (Some ''False'') (Some 7),
          mk_row 3 None ''beta'' (Some ''False'') (Some 7)]
   \<and> create_default_per_instance_preferences example_index ''Group'' True 7 [] = Inr []
   \<and> create_default_per_instance_preferences example_index ''User'' False 7 [] = Inr []"
proof -
  have a: "create_default_per_instance_preferences example_index ''User'' True 7 [] =
     Inr [mk_row 1 (Some ''ui'') ''flag'' (Some ''True'') (Some 7),
          mk_row 2 (Some ''ui'') ''dark'' (Some ''False'') (Some 7),
          mk_row 3 None ''beta'' (Some ''False'') (Some 7)]"
    using hook_creates_defaults_once
      [of True example_index "''User''" "\<lparr>registry = example_registry\<rparr>" 7 "[]"]
    by (simp add: example_index_def example_simps example_create_def mk_row_def)
  have b: "create_default_per_instance_preferences example_index ''Group'' True 7 [] = Inr []"
    using hook_creates_defaults_once
      [of True example_index "''Group''" "\<lparr>registry = example_registry\<rparr>" 7 "[]"]
    by (simp add: example_index_def)
  have c: "create_default_per_instance_preferences example_index ''User'' False 7 [] = Inr []"
    using hook_creates_defaults_once
      [of False example_index "''User''" "\<lparr>registry = example_registry\<rparr>" 7 "[]"]
    by (simp add: example_index_def)
  from a b c show ?thesis by simp
qed

end
